theory Spec2Isabelle
  imports Main "HOL-Library.Sublist"
begin

section \<open>The forwarder plugin of alerta (alerta/plugins/forwarder.py)\<close>

subsection \<open>Python strings\<close>

text \<open>
  A Python \<^verbatim>\<open>str\<close> is a \<^typ>\<open>string\<close>. The expression \<^verbatim>\<open>s in t\<close> on two strings is
  the substring test: \<open>str_in s t\<close>. It is true for the empty \<open>s\<close> whatever \<open>t\<close> is.
\<close>

fun str_prefix :: "string \<Rightarrow> string \<Rightarrow> bool" where
  "str_prefix [] ys = True"
| "str_prefix (x # xs) [] = False"
| "str_prefix (x # xs) (y # ys) = (x = y \<and> str_prefix xs ys)"

fun str_in :: "string \<Rightarrow> string \<Rightarrow> bool" where
  "str_in xs [] = (xs = [])"
| "str_in xs (y # ys) = (str_prefix xs (y # ys) \<or> str_in xs ys)"

subsection \<open>The request context\<close>

text \<open>
  The plugin reads two things of the current flask request: the value of the header
  \<^verbatim>\<open>X-Alerta-Loop\<close> (\<^verbatim>\<open>request.headers.get(X_LOOP_HEADER)\<close>, \<open>None\<close> when the header is
  absent) and the node's own address (\<^verbatim>\<open>absolute_url()\<close>). Both are fixed during one
  request, so the request is a record of the two.
\<close>

record request =
  x_loop_header :: "string option"
  absolute_url :: string

text \<open>\<^verbatim>\<open>def http_origin(): return absolute_url()\<close>\<close>

definition http_origin :: "request \<Rightarrow> string" where
  "http_origin req = absolute_url req"

text \<open>\<^verbatim>\<open>request.headers.get(X_LOOP_HEADER, '')\<close>: the header, the empty string when absent.\<close>

definition x_loop_or_empty :: "request \<Rightarrow> string" where
  "x_loop_or_empty req = (case x_loop_header req of None \<Rightarrow> [] | Some v \<Rightarrow> v)"

text \<open>
  \<^verbatim>\<open>
  def append_to_header(origin):
      x_loop = request.headers.get(X_LOOP_HEADER)
      return origin if not x_loop else '{},{}'.format(x_loop, origin)
  \<close>
  \<^verbatim>\<open>not x_loop\<close> holds for \<open>None\<close> and for the empty string.
\<close>

definition append_to_header :: "request \<Rightarrow> string \<Rightarrow> string" where
  "append_to_header req origin =
     (case x_loop_header req of
        None \<Rightarrow> origin
      | Some x_loop \<Rightarrow> if x_loop = [] then origin else x_loop @ '','' @ origin)"

text \<open>
  \<^verbatim>\<open>
  def is_in_xloop(server):
      x_loop = request.headers.get(X_LOOP_HEADER, '')
      return server in x_loop
  \<close>
\<close>

definition is_in_xloop :: "request \<Rightarrow> string \<Rightarrow> bool" where
  "is_in_xloop req server = str_in server (x_loop_or_empty req)"

subsection \<open>Alerts and errors\<close>

text \<open>
  The plugin reads the \<^verbatim>\<open>id\<close> of an alert (in messages and remote calls) and its body
  (\<^verbatim>\<open>alert.get_body()\<close>, sent to the remote).
\<close>

record alert =
  alert_id :: string
  alert_body :: string

text \<open>
  A hook is left by one of two exceptions: \<^verbatim>\<open>alerta.exceptions.ForwardingLoop\<close>, raised by
  the plugin with its message, and whatever the constructor of the remote client raises
  (\<open>Client_init_failed\<close>, with the text of the exception), which no handler of the plugin
  catches.
\<close>

datatype error = ForwardingLoop string | Client_init_failed string

subsection \<open>The inbound guard\<close>

text \<open>
  \<^verbatim>\<open>
  def pre_receive(self, alert, **kwargs):
      if is_in_xloop(http_origin()):
          raise ForwardingLoop('Alert {} already processed by {}. Ignoring.'.format(alert.id, http_origin()))
      return alert
  \<close>
\<close>

definition pre_receive :: "request \<Rightarrow> alert \<Rightarrow> error + alert" where
  "pre_receive req alert =
     (if is_in_xloop req (http_origin req)
      then Inl (ForwardingLoop (''Alert '' @ alert_id alert @ '' already processed by ''
                  @ http_origin req @ ''. Ignoring.''))
      else Inr alert)"

subsection \<open>Destinations and the remote client\<close>

text \<open>
  An entry of \<^verbatim>\<open>FWD_DESTINATIONS\<close> is a tuple \<^verbatim>\<open>(remote, auth, actions)\<close>: the endpoint, the
  keyword arguments that authenticate the client, and the list of permitted operations.
  The credentials are opaque here.
\<close>

type_synonym 'auth destination = "string \<times> 'auth \<times> string list"

text \<open>
  The three calls on the remote client:
  \<^verbatim>\<open>client.send_alert(**alert.get_body())\<close>, \<^verbatim>\<open>client.action(alert.id, action, text)\<close> and
  \<^verbatim>\<open>client.delete_alert(alert.id)\<close>.
\<close>

datatype operation =
    Send_alert string
  | Send_action string string string
  | Delete_alert string

text \<open>
  One remote invocation: the client is built by
  \<^verbatim>\<open>Client(endpoint=remote, **auth, headers={X_LOOP_HEADER: append_to_header(origin)})\<close>
  and one operation is called on it.
\<close>

datatype 'auth call =
  Call (endpoint: string) (credentials: 'auth) (x_loop_sent: string) (requested: operation)

text \<open>
  The constructor of the client belongs to the library \<^verbatim>\<open>alertaclient\<close>, so it is a
  parameter: \<open>init remote auth headers\<close> is \<open>None\<close> when
  \<^verbatim>\<open>Client(endpoint=remote, **auth, headers=headers)\<close> builds the client, and the text of
  the exception when it raises (a \<^verbatim>\<open>TypeError\<close>, for instance, when the credentials carry
  a key \<^verbatim>\<open>endpoint\<close> or \<^verbatim>\<open>headers\<close>, or a key that the constructor does not take). The
  constructor is called before the \<^verbatim>\<open>try\<close> (lines 66, 115 and 159).
\<close>

type_synonym 'auth init = "string \<Rightarrow> 'auth \<Rightarrow> string \<Rightarrow> string option"

text \<open>
  The remote is outside the program: a call may change the world \<open>'w\<close> and either raises
  an exception (\<open>Inl\<close>, with the text \<^verbatim>\<open>str(e)\<close>) or returns a message (\<open>Inr\<close>). The
  call is inside the \<^verbatim>\<open>try\<close>.
\<close>

type_synonym ('auth, 'w) client = "'auth call \<Rightarrow> 'w \<Rightarrow> (string + string) \<times> 'w"

text \<open>
  What one pass of the loop body writes, by the way it leaves the body:
  \<^item> \<open>Skipped_in_xloop remote\<close>: the print "remote is in xloop", then \<^verbatim>\<open>continue\<close>;
  \<^item> \<open>Skipped_not_permitted\<close>: the print "forwarding not configured" (or "forbidden"),
    then \<^verbatim>\<open>continue\<close>;
  \<^item> \<open>Failed remote e\<close>: the call raised, \<^verbatim>\<open>LOG.warning('Failed to forward ... to {} - {}')\<close>,
    then \<^verbatim>\<open>continue\<close>;
  \<^item> \<open>Sent message\<close>: the call returned, the message (or "success!") and "sent!" are
    printed.
\<close>

datatype outcome =
    Skipped_in_xloop string
  | Skipped_not_permitted
  | Failed string string
  | Sent string

text \<open>
  The effects of a hook: the outcomes in order, the remote calls in order, the world. A
  hook that is left by an exception has had its effects up to there.
\<close>

datatype ('auth, 'w) effects =
  Effects (outcomes: "outcome list") (calls: "'auth call list") (world: 'w)

subsection \<open>The permission tests\<close>

text \<open>
  The conditions of lines 59, 108 and 152; \<^verbatim>\<open>actions\<close> is a list, so \<^verbatim>\<open>in\<close> is list
  membership.
  \<^verbatim>\<open>
  '*' in actions or 'fwd' in actions
  '*' in actions or 'actions' in actions or action in actions
  '*' in actions or 'actions' in actions or 'delete' in actions
  \<close>
\<close>

definition permitted_fwd :: "string list \<Rightarrow> bool" where
  "permitted_fwd actions = (''*'' \<in> set actions \<or> ''fwd'' \<in> set actions)"

definition permitted_action :: "string \<Rightarrow> string list \<Rightarrow> bool" where
  "permitted_action action actions =
     (''*'' \<in> set actions \<or> ''actions'' \<in> set actions \<or> action \<in> set actions)"

definition permitted_delete :: "string list \<Rightarrow> bool" where
  "permitted_delete actions =
     (''*'' \<in> set actions \<or> ''actions'' \<in> set actions \<or> ''delete'' \<in> set actions)"

subsection \<open>The loop over the destinations\<close>

text \<open>
  The three hooks run the same loop (lines 53-79, 102-125 and 146-169), with their own
  permission test and their own client call:
  \<^verbatim>\<open>
  for remote, auth, actions in self.get_config('FWD_DESTINATIONS', default=[], type=list, **kwargs):
      if remote in x_loop:
          print(...); continue
      if not (<permitted>):
          print(...); continue
      headers = {X_LOOP_HEADER: append_to_header(origin)}
      client = Client(endpoint=remote, **auth, headers=headers)   # outside the try
      try:
          message = client.<operation>(...)
      except Exception as e:
          LOG.warning(...); continue
      print(...)
  \<close>
\<close>

fun fan_out ::
  "'auth init \<Rightarrow> ('auth, 'w) client \<Rightarrow> (string list \<Rightarrow> bool) \<Rightarrow> operation \<Rightarrow> request \<Rightarrow>
     'auth destination list \<Rightarrow> 'w \<Rightarrow> string option \<times> ('auth, 'w) effects" where
  "fan_out init client permitted oper req [] w = (None, Effects [] [] w)"
| "fan_out init client permitted oper req ((remote, auth, actions) # dests) w =
     (if str_in remote (x_loop_or_empty req) then
        (let rest = fan_out init client permitted oper req dests w
         in (fst rest,
             Effects (Skipped_in_xloop remote # outcomes (snd rest)) (calls (snd rest))
               (world (snd rest))))
      else if \<not> permitted actions then
        (let rest = fan_out init client permitted oper req dests w
         in (fst rest,
             Effects (Skipped_not_permitted # outcomes (snd rest)) (calls (snd rest))
               (world (snd rest))))
      else
        (let headers = append_to_header req (http_origin req) in
         case init remote auth headers of
           Some e \<Rightarrow> (Some e, Effects [] [] w)
         | None \<Rightarrow>
             (let c = Call remote auth headers oper;
                  answer = client c w;
                  rest = fan_out init client permitted oper req dests (snd answer)
              in (fst rest,
                  Effects
                    ((case fst answer of Inl e \<Rightarrow> Failed remote e | Inr message \<Rightarrow> Sent message)
                       # outcomes (snd rest))
                    (c # calls (snd rest)) (world (snd rest))))))"

text \<open>
  The first component is the exception that left the loop, if any: the loop stops at the
  first destination that passes the two tests and whose client cannot be built; the
  destinations after it are not reached.
\<close>

subsection \<open>The hooks that forward\<close>

text \<open>
  A hook gives what it returns or raises, and its effects.
  \<^verbatim>\<open>post_receive\<close> (lines 46-83) has no guard; after the loop it returns the alert.
\<close>

definition post_receive ::
  "'auth init \<Rightarrow> ('auth, 'w) client \<Rightarrow> request \<Rightarrow> 'auth destination list \<Rightarrow> alert \<Rightarrow> 'w \<Rightarrow>
     (error + alert) \<times> ('auth, 'w) effects" where
  "post_receive init client req dests alert w =
     (let r = fan_out init client permitted_fwd (Send_alert (alert_body alert)) req dests w
      in (case fst r of Some e \<Rightarrow> Inl (Client_init_failed e) | None \<Rightarrow> Inr alert, snd r))"

text \<open>
  \<^verbatim>\<open>status_change\<close> (lines 85-86) is \<^verbatim>\<open>return\<close>: it returns \<open>None\<close> and does nothing.
\<close>

definition status_change ::
  "('auth, 'w) client \<Rightarrow> request \<Rightarrow> 'auth destination list \<Rightarrow> alert \<Rightarrow> string \<Rightarrow> string \<Rightarrow>
     'w \<Rightarrow> unit \<times> ('auth, 'w) effects" where
  "status_change client req dests alert status text w = ((), Effects [] [] w)"

text \<open>
  \<^verbatim>\<open>take_action\<close> (lines 88-129):
  \<^verbatim>\<open>
  origin = http_origin()
  x_loop = request.headers.get(X_LOOP_HEADER, '')
  if origin in x_loop:
      raise ForwardingLoop('Alert {} action {} already processed by {}.'.format(alert.id, action, origin))
  for ...
  return alert
  \<close>
\<close>

definition take_action ::
  "'auth init \<Rightarrow> ('auth, 'w) client \<Rightarrow> request \<Rightarrow> 'auth destination list \<Rightarrow> alert \<Rightarrow> string \<Rightarrow>
     string \<Rightarrow> 'w \<Rightarrow> (error + alert) \<times> ('auth, 'w) effects" where
  "take_action init client req dests alert action text w =
     (let origin = http_origin req; x_loop = x_loop_or_empty req in
      if str_in origin x_loop then
        (Inl (ForwardingLoop (''Alert '' @ alert_id alert @ '' action '' @ action
                @ '' already processed by '' @ origin @ ''.'')),
         Effects [] [] w)
      else
        (let r = fan_out init client (permitted_action action)
                   (Send_action (alert_id alert) action text) req dests w
         in (case fst r of Some e \<Rightarrow> Inl (Client_init_failed e) | None \<Rightarrow> Inr alert, snd r)))"

text \<open>
  \<^verbatim>\<open>delete\<close> (lines 131-173):
  \<^verbatim>\<open>
  origin = http_origin()
  x_loop = request.headers.get(X_LOOP_HEADER, '')
  if origin in x_loop:
      raise ForwardingLoop('Alert {} already deleted by {}.'.format(alert.id, origin))
  for ...
  return True  # always continue with local delete even if remote delete(s) fail
  \<close>
\<close>

definition delete ::
  "'auth init \<Rightarrow> ('auth, 'w) client \<Rightarrow> request \<Rightarrow> 'auth destination list \<Rightarrow> alert \<Rightarrow> 'w \<Rightarrow>
     (error + bool) \<times> ('auth, 'w) effects" where
  "delete init client req dests alert w =
     (let origin = http_origin req; x_loop = x_loop_or_empty req in
      if str_in origin x_loop then
        (Inl (ForwardingLoop (''Alert '' @ alert_id alert @ '' already deleted by ''
                @ origin @ ''.'')),
         Effects [] [] w)
      else
        (let r = fan_out init client permitted_delete (Delete_alert (alert_id alert)) req dests w
         in (case fst r of Some e \<Rightarrow> Inl (Client_init_failed e) | None \<Rightarrow> Inr True, snd r)))"

subsection \<open>What the loop writes for one destination\<close>


subsection \<open>The loop marker as the specification words it\<close>

text \<open>
  The specification describes the loop marker by two operations that the source does not
  have: \<open>decode\<close>, which "splits on commas; absent input yields an empty chain", and
  \<open>contains\<close>, a "membership test". They are written here from those words, to be
  compared with \<open>is_in_xloop\<close>. \<open>split_commas\<close> is Python's \<^verbatim>\<open>s.split(',')\<close>.
\<close>

fun split_commas :: "string \<Rightarrow> string list" where
  "split_commas [] = [[]]"
| "split_commas (c # cs) =
     (if c = CHR '','' then [] # split_commas cs
      else (case split_commas cs of
              [] \<Rightarrow> [[c]]
            | w # ws \<Rightarrow> (c # w) # ws))"

definition spec_decode :: "string option \<Rightarrow> string list" where
  "spec_decode h = (case h of None \<Rightarrow> [] | Some v \<Rightarrow> split_commas v)"

definition spec_contains :: "string list \<Rightarrow> string \<Rightarrow> bool" where
  "spec_contains chain ident = (ident \<in> set chain)"

section \<open>Properties\<close>

subsection \<open>Substring test\<close>

lemma str_prefix_iff: "str_prefix xs ys \<longleftrightarrow> prefix xs ys"
  by (induction xs ys rule: str_prefix.induct) simp_all

lemma str_in_iff_sublist: "str_in xs ys \<longleftrightarrow> sublist xs ys"
  by (induction ys) (simp_all add: str_prefix_iff sublist_Cons_right)

lemma str_in_iff: "str_in xs ys \<longleftrightarrow> (\<exists>ps ss. ys = ps @ xs @ ss)"
  by (simp add: str_in_iff_sublist sublist_def)

lemma str_in_empty: "str_in [] ys"
  by (simp add: str_in_iff_sublist)

lemma str_in_self_suffix: "str_in xs (ps @ xs)"
  by (simp add: str_in_iff_sublist)

lemma str_in_refl: "str_in xs xs"
  by (simp add: str_in_iff_sublist)

subsection \<open>Splitting on commas\<close>

lemma split_commas_not_Nil: "split_commas s \<noteq> []"
  by (induction s) (simp_all split: list.splits)

lemma split_commas_hd_prefix: "split_commas s = w # ws \<Longrightarrow> prefix w s"
  by (induction s arbitrary: w ws) (auto split: if_splits list.splits)

lemma split_commas_member_sublist: "x \<in> set (split_commas s) \<Longrightarrow> sublist x s"
proof (induction s arbitrary: x)
  case Nil
  then show ?case by simp
next
  case (Cons c cs)
  show ?case
  proof (cases "c = CHR '',''")
    case True
    with Cons.prems have "x = [] \<or> x \<in> set (split_commas cs)" by simp
    then show ?thesis
      using Cons.IH by (auto simp: sublist_Cons_right)
  next
    case False
    obtain w ws where sp: "split_commas cs = w # ws"
      using split_commas_not_Nil [of cs] by (cases "split_commas cs") auto
    with False Cons.prems have "x = c # w \<or> x \<in> set ws" by simp
    then show ?thesis
    proof
      assume "x = c # w"
      moreover have "prefix w cs" using sp by (rule split_commas_hd_prefix)
      ultimately show ?thesis by (simp add: sublist_Cons_right)
    next
      assume "x \<in> set ws"
      then have "sublist x cs" using Cons.IH sp by simp
      then show ?thesis by (simp add: sublist_Cons_right)
    qed
  qed
qed

lemma split_commas_no_comma: "CHR '','' \<notin> set s \<Longrightarrow> split_commas s = [s]"
  by (induction s) auto

lemma split_commas_append:
  "split_commas (xs @ CHR '','' # ys) = split_commas xs @ split_commas ys"
proof (induction xs)
  case Nil
  then show ?case by simp
next
  case (Cons c cs)
  then show ?case
    using split_commas_not_Nil [of cs] by (auto split: list.splits)
qed

lemma spec_contains_imp_is_in_xloop:
  "spec_contains (spec_decode (x_loop_header req)) ident \<Longrightarrow> is_in_xloop req ident"
  by (auto simp: spec_contains_def spec_decode_def is_in_xloop_def x_loop_or_empty_def
        str_in_iff_sublist split: option.splits dest: split_commas_member_sublist)

text \<open>
  Under the element-wise reading of the chain, an identifier that obeys the protocol (no
  comma in it) is an element of the chain once it has been appended.
\<close>

lemma spec_decode_append_contains:
  "CHR '','' \<notin> set ident \<Longrightarrow>
     spec_contains (spec_decode (Some (append_to_header req ident))) ident"
  by (auto simp: spec_contains_def spec_decode_def append_to_header_def
        split_commas_append split_commas_no_comma split: option.splits)

subsection \<open>Facts about the loop\<close>


lemma fan_out_complete:
  "fst (fan_out init client permitted oper req dests w) = None \<Longrightarrow>
     length (outcomes (snd (fan_out init client permitted oper req dests w))) = length dests"
proof (induction dests arbitrary: w)
  case Nil
  then show ?case by simp
next
  case (Cons d dests)
  obtain remote auth actions where d: "d = (remote, auth, actions)"
    by (cases d) auto
  show ?case
    using Cons.prems unfolding d
    by (simp add: Let_def Cons.IH split: option.splits if_splits)
qed


lemma fan_out_returns_iff:
  "fst (fan_out init client permitted oper req dests w) = None \<longleftrightarrow>
     (\<forall>(remote, auth, actions) \<in> set dests.
        \<not> str_in remote (x_loop_or_empty req) \<and> permitted actions \<longrightarrow>
        init remote auth (append_to_header req (http_origin req)) = None)"
proof (induction dests arbitrary: w)
  case Nil
  then show ?case by simp
next
  case (Cons d dests)
  obtain remote auth actions where d: "d = (remote, auth, actions)"
    by (cases d) auto
  show ?case
    unfolding d by (simp add: Let_def Cons.IH split: option.splits)
qed

lemma fan_out_calls:
  "calls (snd (fan_out init client permitted oper req dests w)) =
     map (\<lambda>(remote, auth, actions). Call remote auth (append_to_header req (http_origin req)) oper)
       (filter (\<lambda>(remote, auth, actions).
                  \<not> str_in remote (x_loop_or_empty req) \<and> permitted actions)
          (take (length (outcomes (snd (fan_out init client permitted oper req dests w)))) dests))"
proof (induction dests arbitrary: w)
  case Nil
  then show ?case by simp
next
  case (Cons d dests)
  obtain remote auth actions where d: "d = (remote, auth, actions)"
    by (cases d) auto
  show ?case
    unfolding d by (simp add: Let_def Cons.IH split: option.splits)
qed

lemma fan_out_calls_complete:
  "fst (fan_out init client permitted oper req dests w) = None \<Longrightarrow>
   calls (snd (fan_out init client permitted oper req dests w)) =
     map (\<lambda>(remote, auth, actions). Call remote auth (append_to_header req (http_origin req)) oper)
       (filter (\<lambda>(remote, auth, actions).
                  \<not> str_in remote (x_loop_or_empty req) \<and> permitted actions) dests)"
  by (subst fan_out_calls) (simp add: fan_out_complete)





subsection \<open>Facts about the hooks\<close>

lemma post_receive_effects:
  "snd (post_receive init client req dests alert w)
     = snd (fan_out init client permitted_fwd (Send_alert (alert_body alert)) req dests w)"
  by (simp add: post_receive_def Let_def)

lemma post_receive_returns:
  "fst (post_receive init client req dests alert w) = Inr a \<longleftrightarrow>
     a = alert \<and>
     fst (fan_out init client permitted_fwd (Send_alert (alert_body alert)) req dests w) = None"
  by (auto simp: post_receive_def Let_def split: option.splits)

lemma take_action_guarded:
  "str_in (http_origin req) (x_loop_or_empty req) \<Longrightarrow>
     take_action init client req dests alert action text w =
       (Inl (ForwardingLoop (''Alert '' @ alert_id alert @ '' action '' @ action
               @ '' already processed by '' @ http_origin req @ ''.'')),
        Effects [] [] w)"
  by (simp add: take_action_def Let_def)

lemma take_action_effects:
  "\<not> str_in (http_origin req) (x_loop_or_empty req) \<Longrightarrow>
     snd (take_action init client req dests alert action text w)
       = snd (fan_out init client (permitted_action action)
                (Send_action (alert_id alert) action text) req dests w)"
  by (simp add: take_action_def Let_def)

lemma take_action_returns:
  "fst (take_action init client req dests alert action text w) = Inr a \<longleftrightarrow>
     a = alert \<and> \<not> str_in (http_origin req) (x_loop_or_empty req) \<and>
     fst (fan_out init client (permitted_action action)
            (Send_action (alert_id alert) action text) req dests w) = None"
  by (auto simp: take_action_def Let_def split: option.splits)

lemma delete_guarded:
  "str_in (http_origin req) (x_loop_or_empty req) \<Longrightarrow>
     delete init client req dests alert w =
       (Inl (ForwardingLoop (''Alert '' @ alert_id alert @ '' already deleted by ''
               @ http_origin req @ ''.'')),
        Effects [] [] w)"
  by (simp add: delete_def Let_def)

lemma delete_effects:
  "\<not> str_in (http_origin req) (x_loop_or_empty req) \<Longrightarrow>
     snd (delete init client req dests alert w)
       = snd (fan_out init client permitted_delete (Delete_alert (alert_id alert)) req dests w)"
  by (simp add: delete_def Let_def)

lemma delete_returns:
  "fst (delete init client req dests alert w) = Inr b \<longleftrightarrow>
     b \<and> \<not> str_in (http_origin req) (x_loop_or_empty req) \<and>
     fst (fan_out init client permitted_delete (Delete_alert (alert_id alert)) req dests w) = None"
  by (auto simp: delete_def Let_def split: option.splits)

section \<open>The claims\<close>

subsection \<open>C1: the inbound guard\<close>

text \<open>
  Claim C1, amended. The inbound guard raises \<open>ForwardingLoop\<close> exactly when the node's
  own origin occurs as a substring of the value of the \<^verbatim>\<open>X-Alerta-Loop\<close> header (the empty
  string when the header is absent), and otherwise returns the alert unchanged; these are
  its only two results. In particular it raises whenever the origin is one of the
  comma-separated elements of the header. With the header \<^verbatim>\<open>nodeA,nodeB\<close> it raises for the
  origin \<^verbatim>\<open>nodeB\<close> and passes for the origin \<^verbatim>\<open>nodeC\<close>.
\<close>

theorem pre_receive_guard:
  "(pre_receive req alert = Inr alert \<longleftrightarrow>
      \<not> (\<exists>ps ss. x_loop_or_empty req = ps @ http_origin req @ ss))
   \<and> (pre_receive req alert = Inr alert \<or> (\<exists>m. pre_receive req alert = Inl (ForwardingLoop m)))
   \<and> (spec_contains (spec_decode (x_loop_header req)) (http_origin req) \<longrightarrow>
        (\<exists>m. pre_receive req alert = Inl (ForwardingLoop m)))
   \<and> (x_loop_header req = Some ''nodeA,nodeB'' \<and> absolute_url req = ''nodeB'' \<longrightarrow>
        (\<exists>m. pre_receive req alert = Inl (ForwardingLoop m)))
   \<and> (x_loop_header req = Some ''nodeA,nodeB'' \<and> absolute_url req = ''nodeC'' \<longrightarrow>
        pre_receive req alert = Inr alert)"
proof -
  have a: "pre_receive req alert = Inr alert \<longleftrightarrow>
      \<not> (\<exists>ps ss. x_loop_or_empty req = ps @ http_origin req @ ss)"
    by (simp add: pre_receive_def is_in_xloop_def str_in_iff)
  have b: "pre_receive req alert = Inr alert \<or> (\<exists>m. pre_receive req alert = Inl (ForwardingLoop m))"
    by (simp add: pre_receive_def)
  have c: "spec_contains (spec_decode (x_loop_header req)) (http_origin req) \<longrightarrow>
        (\<exists>m. pre_receive req alert = Inl (ForwardingLoop m))"
    using spec_contains_imp_is_in_xloop [of req "http_origin req"]
    by (simp add: pre_receive_def)
  have d: "x_loop_header req = Some ''nodeA,nodeB'' \<and> absolute_url req = ''nodeB'' \<longrightarrow>
        (\<exists>m. pre_receive req alert = Inl (ForwardingLoop m))"
    by (simp add: pre_receive_def is_in_xloop_def x_loop_or_empty_def http_origin_def)
  have e: "x_loop_header req = Some ''nodeA,nodeB'' \<and> absolute_url req = ''nodeC'' \<longrightarrow>
        pre_receive req alert = Inr alert"
    by (simp add: pre_receive_def is_in_xloop_def x_loop_or_empty_def http_origin_def)
  from a b c d e show ?thesis by blast
qed

text \<open>
  The instance of the header \<^verbatim>\<open>nodeA,nodeB\<close>: the origin \<^verbatim>\<open>nodeB\<close> is an element of the
  decoded chain and the guard raises; the origin \<^verbatim>\<open>nodeC\<close> passes.
\<close>

theorem pre_receive_guard_witness:
  "spec_contains (spec_decode (Some ''nodeA,nodeB'')) ''nodeB''
   \<and> pre_receive \<lparr>x_loop_header = Some ''nodeA,nodeB'', absolute_url = ''nodeB''\<rparr>
        \<lparr>alert_id = ''a1'', alert_body = ''b''\<rparr>
      = Inl (ForwardingLoop ''Alert a1 already processed by nodeB. Ignoring.'')
   \<and> pre_receive \<lparr>x_loop_header = Some ''nodeA,nodeB'', absolute_url = ''nodeC''\<rparr>
        \<lparr>alert_id = ''a1'', alert_body = ''b''\<rparr>
      = Inr \<lparr>alert_id = ''a1'', alert_body = ''b''\<rparr>"
  using pre_receive_guard [of "\<lparr>x_loop_header = Some ''nodeA,nodeB'', absolute_url = ''nodeB''\<rparr>"
          "\<lparr>alert_id = ''a1'', alert_body = ''b''\<rparr>"]
    pre_receive_guard [of "\<lparr>x_loop_header = Some ''nodeA,nodeB'', absolute_url = ''nodeC''\<rparr>"
          "\<lparr>alert_id = ''a1'', alert_body = ''b''\<rparr>"]
  by (simp add: spec_contains_def spec_decode_def pre_receive_def is_in_xloop_def
        x_loop_or_empty_def http_origin_def)

text \<open>
  Claim C1 as it is stated fails: with the header \<^verbatim>\<open>nodeA\<close> the chain decoded by splitting
  on commas is \<^verbatim>\<open>[nodeA]\<close>, which does not contain the origin \<^verbatim>\<open>node\<close>, and yet the guard
  raises instead of returning the alert.
\<close>

theorem pre_receive_rejects_unvisited_origin:
  "\<not> spec_contains (spec_decode (Some ''nodeA'')) ''node''
   \<and> pre_receive \<lparr>x_loop_header = Some ''nodeA'', absolute_url = ''node''\<rparr>
        \<lparr>alert_id = ''a1'', alert_body = ''b''\<rparr>
      = Inl (ForwardingLoop ''Alert a1 already processed by node. Ignoring.'')"
  by (simp add: spec_contains_def spec_decode_def pre_receive_def is_in_xloop_def
        x_loop_or_empty_def http_origin_def)

subsection \<open>C2: appending, then decoding\<close>

text \<open>
  Claim C2, amended. For every inbound header (absent, empty or not) and every identifier
  that contains no comma, the value built by \<open>append_to_header\<close>, decoded by splitting on
  commas, is a chain that contains the identifier as an element. For every identifier,
  with or without a comma, the value contains it as a substring, so that the membership
  test of the source, \<open>is_in_xloop\<close>, run on a request that carries the value, is true.
\<close>

theorem append_then_member:
  "(CHR '','' \<notin> set ident \<longrightarrow>
      spec_contains (spec_decode (Some (append_to_header req ident))) ident)
   \<and> is_in_xloop (req\<lparr>x_loop_header := Some (append_to_header req ident)\<rparr>) ident"
proof -
  have a: "CHR '','' \<notin> set ident \<longrightarrow>
      spec_contains (spec_decode (Some (append_to_header req ident))) ident"
    by (simp add: spec_decode_append_contains)
  have b: "is_in_xloop (req\<lparr>x_loop_header := Some (append_to_header req ident)\<rparr>) ident"
    by (simp add: is_in_xloop_def x_loop_or_empty_def append_to_header_def str_in_refl
          str_in_self_suffix [of ident "x @ '',''" for x, simplified] split: option.splits)
  from a b show ?thesis by blast
qed

text \<open>
  The instance of the inbound header \<^verbatim>\<open>nodeA\<close> and the identifier \<^verbatim>\<open>nodeB\<close>: the next hop
  receives \<^verbatim>\<open>nodeA,nodeB\<close>, which decodes to the two elements.
\<close>

theorem append_then_member_witness:
  "CHR '','' \<notin> set ''nodeB''
   \<and> append_to_header \<lparr>x_loop_header = Some ''nodeA'', absolute_url = ''nodeB''\<rparr> ''nodeB''
       = ''nodeA,nodeB''
   \<and> spec_decode (Some ''nodeA,nodeB'') = [''nodeA'', ''nodeB'']
   \<and> spec_contains (spec_decode (Some ''nodeA,nodeB'')) ''nodeB''
   \<and> is_in_xloop \<lparr>x_loop_header = Some ''nodeA,nodeB'', absolute_url = ''nodeB''\<rparr> ''nodeB''"
proof -
  have h: "CHR '','' \<notin> set ''nodeB''" by simp
  have e: "append_to_header \<lparr>x_loop_header = Some ''nodeA'', absolute_url = ''nodeB''\<rparr> ''nodeB''
       = ''nodeA,nodeB''"
    by (simp add: append_to_header_def)
  have d: "spec_decode (Some ''nodeA,nodeB'') = [''nodeA'', ''nodeB'']"
    by (simp add: spec_decode_def)
  note t = append_then_member
      [of "''nodeB''" "\<lparr>x_loop_header = Some ''nodeA'', absolute_url = ''nodeB''\<rparr>"]
  from t h have "spec_contains (spec_decode (Some (append_to_header
      \<lparr>x_loop_header = Some ''nodeA'', absolute_url = ''nodeB''\<rparr> ''nodeB''))) ''nodeB''
    \<and> is_in_xloop (\<lparr>x_loop_header = Some ''nodeA'', absolute_url = ''nodeB''\<rparr>
         \<lparr>x_loop_header := Some (append_to_header
            \<lparr>x_loop_header = Some ''nodeA'', absolute_url = ''nodeB''\<rparr> ''nodeB'')\<rparr>) ''nodeB''"
    by blast
  then show ?thesis using h d unfolding e by simp
qed

text \<open>
  Claim C2 as it is stated fails for an identifier with a comma: appended to an absent
  chain, \<^verbatim>\<open>a,b\<close> gives the value \<^verbatim>\<open>a,b\<close>, which decodes to the elements \<^verbatim>\<open>a\<close> and \<^verbatim>\<open>b\<close>; the
  identifier is not among them.
\<close>

theorem appended_identifier_with_comma_is_no_element:
  "append_to_header \<lparr>x_loop_header = None, absolute_url = ''a,b''\<rparr> ''a,b'' = ''a,b''
   \<and> spec_decode (Some ''a,b'') = [''a'', ''b'']
   \<and> \<not> spec_contains (spec_decode (Some
         (append_to_header \<lparr>x_loop_header = None, absolute_url = ''a,b''\<rparr> ''a,b''))) ''a,b''"
  by (simp add: append_to_header_def spec_decode_def spec_contains_def)

subsection \<open>C3: a destination that is in the inbound chain\<close>



subsection \<open>C4: a failing destination does not stop the loop\<close>




subsection \<open>C5: the permission table\<close>

text \<open>
  Claim C5, amended. The remote calls of each hook are exactly the destinations reached
  by the loop (all of them when the hook returns) that are not in the inbound header and
  whose operations contain \<^verbatim>\<open>*\<close> or \<^verbatim>\<open>fwd\<close> (create/update), \<^verbatim>\<open>*\<close>, \<^verbatim>\<open>actions\<close> or the exact
  action name (action), \<^verbatim>\<open>*\<close>, \<^verbatim>\<open>actions\<close> or \<^verbatim>\<open>delete\<close> (delete). A destination with the
  operations \<^verbatim>\<open>["fwd"]\<close> is permitted for an action event exactly when the action itself is
  named \<^verbatim>\<open>fwd\<close>; it is never permitted for a delete, and a destination with \<^verbatim>\<open>["actions"]\<close>
  is never permitted for a create/update forward.
\<close>

theorem permission_gate_table:
  "(\<forall>a. fst (post_receive init client req dests alert w) = Inr a \<longrightarrow>
      calls (snd (post_receive init client req dests alert w)) =
        map (\<lambda>(remote, auth, actions).
               Call remote auth (append_to_header req (http_origin req))
                 (Send_alert (alert_body alert)))
          (filter (\<lambda>(remote, auth, actions). \<not> str_in remote (x_loop_or_empty req)
                     \<and> (''*'' \<in> set actions \<or> ''fwd'' \<in> set actions)) dests))
   \<and> (\<forall>a. fst (take_action init client req dests alert action text w) = Inr a \<longrightarrow>
      calls (snd (take_action init client req dests alert action text w)) =
        map (\<lambda>(remote, auth, actions).
               Call remote auth (append_to_header req (http_origin req))
                 (Send_action (alert_id alert) action text))
          (filter (\<lambda>(remote, auth, actions). \<not> str_in remote (x_loop_or_empty req)
                     \<and> (''*'' \<in> set actions \<or> ''actions'' \<in> set actions \<or> action \<in> set actions))
             dests))
   \<and> (\<forall>b. fst (delete init client req dests alert w) = Inr b \<longrightarrow>
      calls (snd (delete init client req dests alert w)) =
        map (\<lambda>(remote, auth, actions).
               Call remote auth (append_to_header req (http_origin req))
                 (Delete_alert (alert_id alert)))
          (filter (\<lambda>(remote, auth, actions). \<not> str_in remote (x_loop_or_empty req)
                     \<and> (''*'' \<in> set actions \<or> ''actions'' \<in> set actions \<or> ''delete'' \<in> set actions))
             dests))
   \<and> calls (snd (post_receive init client req dests alert w)) =
        map (\<lambda>(remote, auth, actions).
               Call remote auth (append_to_header req (http_origin req))
                 (Send_alert (alert_body alert)))
          (filter (\<lambda>(remote, auth, actions). \<not> str_in remote (x_loop_or_empty req)
                     \<and> (''*'' \<in> set actions \<or> ''fwd'' \<in> set actions))
             (take (length (outcomes (snd (post_receive init client req dests alert w)))) dests))
   \<and> calls (snd (take_action init client req dests alert action text w)) =
        map (\<lambda>(remote, auth, actions).
               Call remote auth (append_to_header req (http_origin req))
                 (Send_action (alert_id alert) action text))
          (filter (\<lambda>(remote, auth, actions). \<not> str_in remote (x_loop_or_empty req)
                     \<and> (''*'' \<in> set actions \<or> ''actions'' \<in> set actions \<or> action \<in> set actions))
             (take (length (outcomes (snd (take_action init client req dests alert action text w))))
                dests))
   \<and> calls (snd (delete init client req dests alert w)) =
        map (\<lambda>(remote, auth, actions).
               Call remote auth (append_to_header req (http_origin req))
                 (Delete_alert (alert_id alert)))
          (filter (\<lambda>(remote, auth, actions). \<not> str_in remote (x_loop_or_empty req)
                     \<and> (''*'' \<in> set actions \<or> ''actions'' \<in> set actions \<or> ''delete'' \<in> set actions))
             (take (length (outcomes (snd (delete init client req dests alert w)))) dests))
   \<and> (permitted_action action [''fwd''] \<longleftrightarrow> action = ''fwd'')
   \<and> \<not> permitted_delete [''fwd'']
   \<and> \<not> permitted_fwd [''actions'']"
proof -
  have p1: "calls (snd (post_receive init client req dests alert w)) =
        map (\<lambda>(remote, auth, actions).
               Call remote auth (append_to_header req (http_origin req))
                 (Send_alert (alert_body alert)))
          (filter (\<lambda>(remote, auth, actions). \<not> str_in remote (x_loop_or_empty req)
                     \<and> (''*'' \<in> set actions \<or> ''fwd'' \<in> set actions))
             (take (length (outcomes (snd (post_receive init client req dests alert w)))) dests))"
    using fan_out_calls [of init client permitted_fwd "Send_alert (alert_body alert)" req dests w]
    by (simp add: post_receive_effects permitted_fwd_def)
  have p: "\<forall>a. fst (post_receive init client req dests alert w) = Inr a \<longrightarrow>
      calls (snd (post_receive init client req dests alert w)) =
        map (\<lambda>(remote, auth, actions).
               Call remote auth (append_to_header req (http_origin req))
                 (Send_alert (alert_body alert)))
          (filter (\<lambda>(remote, auth, actions). \<not> str_in remote (x_loop_or_empty req)
                     \<and> (''*'' \<in> set actions \<or> ''fwd'' \<in> set actions)) dests)"
    using fan_out_calls_complete
      [of init client permitted_fwd "Send_alert (alert_body alert)" req dests w]
    by (simp add: post_receive_effects post_receive_returns permitted_fwd_def)
  have t1: "calls (snd (take_action init client req dests alert action text w)) =
        map (\<lambda>(remote, auth, actions).
               Call remote auth (append_to_header req (http_origin req))
                 (Send_action (alert_id alert) action text))
          (filter (\<lambda>(remote, auth, actions). \<not> str_in remote (x_loop_or_empty req)
                     \<and> (''*'' \<in> set actions \<or> ''actions'' \<in> set actions \<or> action \<in> set actions))
             (take (length (outcomes (snd (take_action init client req dests alert action text w))))
                dests))"
  proof (cases "str_in (http_origin req) (x_loop_or_empty req)")
    case True
    then show ?thesis by (simp add: take_action_guarded)
  next
    case False
    then show ?thesis
      using fan_out_calls [of init client "permitted_action action"
          "Send_action (alert_id alert) action text" req dests w]
      by (simp add: take_action_effects permitted_action_def)
  qed
  have t: "\<forall>a. fst (take_action init client req dests alert action text w) = Inr a \<longrightarrow>
      calls (snd (take_action init client req dests alert action text w)) =
        map (\<lambda>(remote, auth, actions).
               Call remote auth (append_to_header req (http_origin req))
                 (Send_action (alert_id alert) action text))
          (filter (\<lambda>(remote, auth, actions). \<not> str_in remote (x_loop_or_empty req)
                     \<and> (''*'' \<in> set actions \<or> ''actions'' \<in> set actions \<or> action \<in> set actions))
             dests)"
    using fan_out_calls_complete [of init client "permitted_action action"
          "Send_action (alert_id alert) action text" req dests w]
    by (simp add: take_action_effects take_action_returns permitted_action_def)
  have d1: "calls (snd (delete init client req dests alert w)) =
        map (\<lambda>(remote, auth, actions).
               Call remote auth (append_to_header req (http_origin req))
                 (Delete_alert (alert_id alert)))
          (filter (\<lambda>(remote, auth, actions). \<not> str_in remote (x_loop_or_empty req)
                     \<and> (''*'' \<in> set actions \<or> ''actions'' \<in> set actions \<or> ''delete'' \<in> set actions))
             (take (length (outcomes (snd (delete init client req dests alert w)))) dests))"
  proof (cases "str_in (http_origin req) (x_loop_or_empty req)")
    case True
    then show ?thesis by (simp add: delete_guarded)
  next
    case False
    then show ?thesis
      using fan_out_calls [of init client permitted_delete "Delete_alert (alert_id alert)"
          req dests w]
      by (simp add: delete_effects permitted_delete_def)
  qed
  have d: "\<forall>b. fst (delete init client req dests alert w) = Inr b \<longrightarrow>
      calls (snd (delete init client req dests alert w)) =
        map (\<lambda>(remote, auth, actions).
               Call remote auth (append_to_header req (http_origin req))
                 (Delete_alert (alert_id alert)))
          (filter (\<lambda>(remote, auth, actions). \<not> str_in remote (x_loop_or_empty req)
                     \<and> (''*'' \<in> set actions \<or> ''actions'' \<in> set actions \<or> ''delete'' \<in> set actions))
             dests)"
    using fan_out_calls_complete [of init client permitted_delete "Delete_alert (alert_id alert)"
          req dests w]
    by (simp add: delete_effects delete_returns permitted_delete_def)
  have f: "permitted_action action [''fwd''] \<longleftrightarrow> action = ''fwd''"
    by (auto simp: permitted_action_def)
  have g: "\<not> permitted_delete [''fwd'']" by (simp add: permitted_delete_def)
  have h: "\<not> permitted_fwd [''actions'']" by (simp add: permitted_fwd_def)
  from p t d p1 t1 d1 f g h show ?thesis by blast
qed

text \<open>
  The instance of the action \<^verbatim>\<open>ack\<close> and three destinations with the operations
  \<^verbatim>\<open>["fwd"]\<close>, \<^verbatim>\<open>["ack"]\<close> and \<^verbatim>\<open>["actions"]\<close>: the first is skipped, the others are called.
\<close>

theorem permission_gate_table_witness:
  "take_action (\<lambda>remote auth headers. None) (\<lambda>c w. (Inr ''ok'', w))
     \<lparr>x_loop_header = None, absolute_url = ''nodeA''\<rparr>
     [(''B'', ''keyB'', [''fwd'']), (''C'', ''keyC'', [''ack'']), (''D'', ''keyD'', [''actions''])]
     \<lparr>alert_id = ''a1'', alert_body = ''body''\<rparr> ''ack'' ''note'' ()
   = (Inr \<lparr>alert_id = ''a1'', alert_body = ''body''\<rparr>,
      Effects [Skipped_not_permitted, Sent ''ok'', Sent ''ok'']
        [Call ''C'' ''keyC'' ''nodeA'' (Send_action ''a1'' ''ack'' ''note''),
         Call ''D'' ''keyD'' ''nodeA'' (Send_action ''a1'' ''ack'' ''note'')] ())
   \<and> \<not> permitted_action ''ack'' [''fwd'']"
proof -
  have e: "take_action (\<lambda>remote auth headers. None) (\<lambda>c w. (Inr ''ok'', w))
     \<lparr>x_loop_header = None, absolute_url = ''nodeA''\<rparr>
     [(''B'', ''keyB'', [''fwd'']), (''C'', ''keyC'', [''ack'']), (''D'', ''keyD'', [''actions''])]
     \<lparr>alert_id = ''a1'', alert_body = ''body''\<rparr> ''ack'' ''note'' ()
   = (Inr \<lparr>alert_id = ''a1'', alert_body = ''body''\<rparr>,
      Effects [Skipped_not_permitted, Sent ''ok'', Sent ''ok'']
        [Call ''C'' ''keyC'' ''nodeA'' (Send_action ''a1'' ''ack'' ''note''),
         Call ''D'' ''keyD'' ''nodeA'' (Send_action ''a1'' ''ack'' ''note'')] ())"
    by (simp add: take_action_def x_loop_or_empty_def http_origin_def append_to_header_def
          permitted_action_def Let_def)
  have "permitted_action ''ack'' [''fwd''] \<longleftrightarrow> ''ack'' = ''fwd''"
    using permission_gate_table [of "\<lambda>remote auth headers. None" "\<lambda>c w. (Inr ''ok'', w)"
      "\<lparr>x_loop_header = None, absolute_url = ''nodeA''\<rparr>"
      "[(''B'', ''keyB'', [''fwd'']), (''C'', ''keyC'', [''ack'']), (''D'', ''keyD'', [''actions''])]"
      "\<lparr>alert_id = ''a1'', alert_body = ''body''\<rparr>" "()" "''ack''" "''note''"]
    by blast
  then show ?thesis using e by simp
qed

text \<open>
  Claim C5 as it is stated fails in its last sentence: for the action named \<^verbatim>\<open>fwd\<close> a
  destination with the operations \<^verbatim>\<open>["fwd"]\<close> is permitted, and the action is sent to it.
\<close>

theorem fwd_only_destination_receives_action_fwd:
  "permitted_action ''fwd'' [''fwd'']
   \<and> take_action (\<lambda>remote auth headers. None) (\<lambda>c w. (Inr ''ok'', w))
       \<lparr>x_loop_header = None, absolute_url = ''nodeA''\<rparr>
       [(''B'', ''keyB'', [''fwd''])] \<lparr>alert_id = ''a1'', alert_body = ''body''\<rparr> ''fwd'' ''note'' ()
     = (Inr \<lparr>alert_id = ''a1'', alert_body = ''body''\<rparr>,
        Effects [Sent ''ok''] [Call ''B'' ''keyB'' ''nodeA'' (Send_action ''a1'' ''fwd'' ''note'')] ())"
  by (simp add: take_action_def x_loop_or_empty_def http_origin_def append_to_header_def
        permitted_action_def Let_def)

subsection \<open>C6: the wildcard\<close>

text \<open>
  Claim C6. A destination whose operations contain \<^verbatim>\<open>*\<close> passes the permission test of
  every hook, for every action name; when it is not in the inbound header, every hook that
  returns has called it.
\<close>

theorem wildcard_is_permitted:
  assumes "''*'' \<in> set actions"
  shows "permitted_fwd actions \<and> permitted_action action actions \<and> permitted_delete actions
    \<and> ((remote, auth, actions) \<in> set dests \<and> \<not> str_in remote (x_loop_or_empty req) \<longrightarrow>
         (\<forall>a. fst (post_receive init client req dests alert w) = Inr a \<longrightarrow>
              Call remote auth (append_to_header req (http_origin req)) (Send_alert (alert_body alert))
                \<in> set (calls (snd (post_receive init client req dests alert w))))
         \<and> (\<forall>a. fst (take_action init client req dests alert action text w) = Inr a \<longrightarrow>
              Call remote auth (append_to_header req (http_origin req))
                (Send_action (alert_id alert) action text)
                \<in> set (calls (snd (take_action init client req dests alert action text w))))
         \<and> (\<forall>b. fst (delete init client req dests alert w) = Inr b \<longrightarrow>
              Call remote auth (append_to_header req (http_origin req))
                (Delete_alert (alert_id alert))
                \<in> set (calls (snd (delete init client req dests alert w)))))"
proof -
  have perm: "permitted_fwd actions" "permitted_action action actions" "permitted_delete actions"
    using assms by (simp_all add: permitted_fwd_def permitted_action_def permitted_delete_def)
  have called: "Call remote auth (append_to_header req (http_origin req)) oper
       \<in> set (calls (snd (fan_out init client permitted oper req dests w)))"
    if "(remote, auth, actions) \<in> set dests" "\<not> str_in remote (x_loop_or_empty req)"
       "permitted actions" "fst (fan_out init client permitted oper req dests w) = None"
    for permitted oper
    using that by (force simp: fan_out_calls_complete)
  show ?thesis
    using perm called [of permitted_fwd] called [of "permitted_action action"]
      called [of permitted_delete]
    by (auto simp: post_receive_effects post_receive_returns take_action_effects
          take_action_returns delete_effects delete_returns)
qed

text \<open>
  The instance of a destination with the operations \<^verbatim>\<open>["*"]\<close> and the action \<^verbatim>\<open>shelve\<close>.
\<close>

theorem wildcard_is_permitted_witness:
  "''*'' \<in> set [''*'']
   \<and> permitted_fwd [''*''] \<and> permitted_action ''shelve'' [''*''] \<and> permitted_delete [''*'']
   \<and> post_receive (\<lambda>remote auth headers. None) (\<lambda>c w. (Inr ''ok'', w))
        \<lparr>x_loop_header = None, absolute_url = ''nodeA''\<rparr> [(''B'', ''keyB'', [''*''])]
        \<lparr>alert_id = ''a1'', alert_body = ''body''\<rparr> ()
      = (Inr \<lparr>alert_id = ''a1'', alert_body = ''body''\<rparr>,
         Effects [Sent ''ok''] [Call ''B'' ''keyB'' ''nodeA'' (Send_alert ''body'')] ())"
proof -
  have h: "''*'' \<in> set [''*'']" by simp
  have e: "post_receive (\<lambda>remote auth headers. None) (\<lambda>c w. (Inr ''ok'', w))
        \<lparr>x_loop_header = None, absolute_url = ''nodeA''\<rparr> [(''B'', ''keyB'', [''*''])]
        \<lparr>alert_id = ''a1'', alert_body = ''body''\<rparr> ()
      = (Inr \<lparr>alert_id = ''a1'', alert_body = ''body''\<rparr>,
         Effects [Sent ''ok''] [Call ''B'' ''keyB'' ''nodeA'' (Send_alert ''body'')] ())"
    by (simp add: post_receive_def x_loop_or_empty_def http_origin_def append_to_header_def
          permitted_fwd_def Let_def)
  have "permitted_fwd [''*''] \<and> permitted_action ''shelve'' [''*''] \<and> permitted_delete [''*'']"
    using wildcard_is_permitted [OF h, of "''shelve''" "''B''" "''keyB''"
        "[(''B'', ''keyB'', [''*''])]" "\<lparr>x_loop_header = None, absolute_url = ''nodeA''\<rparr>"
        "\<lambda>remote auth headers. None" "\<lambda>c w. (Inr ''ok'', w)"
        "\<lparr>alert_id = ''a1'', alert_body = ''body''\<rparr>" "()" "''note''"]
    by blast
  then show ?thesis using h e by blast
qed

subsection \<open>C7: delete returns True\<close>

text \<open>
  Claim C7, amended. When the guard of \<open>delete\<close> passes and the client is constructible
  for every destination that is not in the inbound header and passes the permission test,
  the hook returns \<open>True\<close>, with one outcome for every destination, whatever the remote
  calls do: no failure of a remote call reaches the caller.
\<close>

theorem delete_returns_true:
  assumes "\<not> is_in_xloop req (http_origin req)"
    and "\<forall>(remote, auth, actions) \<in> set dests.
           \<not> str_in remote (x_loop_or_empty req) \<and> permitted_delete actions \<longrightarrow>
           init remote auth (append_to_header req (http_origin req)) = None"
  shows "fst (delete init client req dests alert w) = Inr True
         \<and> length (outcomes (snd (delete init client req dests alert w))) = length dests"
proof -
  have g: "\<not> str_in (http_origin req) (x_loop_or_empty req)"
    using assms(1) by (simp add: is_in_xloop_def)
  have n: "fst (fan_out init client permitted_delete (Delete_alert (alert_id alert)) req dests w)
             = None"
    using assms(2) by (simp add: fan_out_returns_iff)
  show ?thesis
    using g n fan_out_complete [OF n] by (simp add: delete_returns delete_effects)
qed

text \<open>
  The instance of two permitted destinations whose calls both raise.
\<close>

theorem delete_returns_true_witness:
  "\<not> is_in_xloop \<lparr>x_loop_header = Some ''nodeZ'', absolute_url = ''nodeA''\<rparr>
        (http_origin \<lparr>x_loop_header = Some ''nodeZ'', absolute_url = ''nodeA''\<rparr>)
   \<and> delete (\<lambda>remote auth headers. None) (\<lambda>c w. (Inl ''unreachable'', w))
        \<lparr>x_loop_header = Some ''nodeZ'', absolute_url = ''nodeA''\<rparr>
        [(''B'', ''keyB'', [''*'']), (''C'', ''keyC'', [''delete''])]
        \<lparr>alert_id = ''a1'', alert_body = ''body''\<rparr> ()
      = (Inr True, Effects [Failed ''B'' ''unreachable'', Failed ''C'' ''unreachable'']
               [Call ''B'' ''keyB'' ''nodeZ,nodeA'' (Delete_alert ''a1''),
                Call ''C'' ''keyC'' ''nodeZ,nodeA'' (Delete_alert ''a1'')] ())"
proof -
  have h: "\<not> is_in_xloop \<lparr>x_loop_header = Some ''nodeZ'', absolute_url = ''nodeA''\<rparr>
        (http_origin \<lparr>x_loop_header = Some ''nodeZ'', absolute_url = ''nodeA''\<rparr>)"
    by (simp add: is_in_xloop_def x_loop_or_empty_def http_origin_def)
  have c: "\<forall>(remote, auth, actions) \<in> set [(''B'', ''keyB'', [''*'']), (''C'', ''keyC'', [''delete''])].
           \<not> str_in remote (x_loop_or_empty \<lparr>x_loop_header = Some ''nodeZ'', absolute_url = ''nodeA''\<rparr>)
             \<and> permitted_delete actions \<longrightarrow>
           (\<lambda>remote auth headers. None) remote auth
             (append_to_header \<lparr>x_loop_header = Some ''nodeZ'', absolute_url = ''nodeA''\<rparr>
                (http_origin \<lparr>x_loop_header = Some ''nodeZ'', absolute_url = ''nodeA''\<rparr>)) = None"
    by simp
  have "fst (delete (\<lambda>remote auth headers. None) (\<lambda>c w. (Inl ''unreachable'', w))
        \<lparr>x_loop_header = Some ''nodeZ'', absolute_url = ''nodeA''\<rparr>
        [(''B'', ''keyB'', [''*'']), (''C'', ''keyC'', [''delete''])]
        \<lparr>alert_id = ''a1'', alert_body = ''body''\<rparr> ()) = Inr True"
    using delete_returns_true [OF h c, of "\<lambda>c w. (Inl ''unreachable'', w)"
        "\<lparr>alert_id = ''a1'', alert_body = ''body''\<rparr>" "()"]
    by blast
  then show ?thesis
    using h by (simp add: delete_def x_loop_or_empty_def http_origin_def append_to_header_def
          permitted_delete_def Let_def)
qed

text \<open>
  Claim C7 as it is stated fails: the guard passes, the credentials of the only
  destination carry a key \<^verbatim>\<open>headers\<close>, the constructor raises a \<^verbatim>\<open>TypeError\<close> outside the
  \<^verbatim>\<open>try\<close>, and \<open>delete\<close> raises it instead of returning \<open>True\<close>.
\<close>

theorem delete_raises_when_client_cannot_be_built:
  "\<not> is_in_xloop \<lparr>x_loop_header = None, absolute_url = ''nodeA''\<rparr>
        (http_origin \<lparr>x_loop_header = None, absolute_url = ''nodeA''\<rparr>)
   \<and> delete
        (\<lambda>remote auth headers. if ''headers'' \<in> fst ` set auth then Some ''TypeError'' else None)
        (\<lambda>c w. (Inr ''ok'', w))
        \<lparr>x_loop_header = None, absolute_url = ''nodeA''\<rparr>
        [(''B'', [(''key'', ''kB''), (''headers'', ''h'')], [''*''])]
        \<lparr>alert_id = ''a1'', alert_body = ''body''\<rparr> ()
      = (Inl (Client_init_failed ''TypeError''), Effects [] [] ())"
  by (simp add: delete_def is_in_xloop_def x_loop_or_empty_def http_origin_def
        append_to_header_def permitted_delete_def Let_def)

subsection \<open>C8: membership against an absent header\<close>

text \<open>
  Claim C8, amended. Against an absent header, \<open>is_in_xloop\<close> is false for every identifier
  that is not the empty string, and true for the empty string.
\<close>

theorem absent_header_membership:
  "is_in_xloop (req\<lparr>x_loop_header := None\<rparr>) ident \<longleftrightarrow> ident = []"
  by (simp add: is_in_xloop_def x_loop_or_empty_def)

text \<open>
  The instance of the identifier \<^verbatim>\<open>nodeA\<close>.
\<close>

theorem absent_header_membership_witness:
  "\<not> is_in_xloop \<lparr>x_loop_header = None, absolute_url = ''nodeA''\<rparr> ''nodeA''"
  using absent_header_membership [of "\<lparr>x_loop_header = None, absolute_url = ''nodeA''\<rparr>" "''nodeA''"]
  by simp

text \<open>
  Claim C8 as it is stated fails for the empty identifier: it is reported as a member of
  the chain of a request that has no loop header.
\<close>

theorem absent_header_empty_identifier:
  "is_in_xloop \<lparr>x_loop_header = None, absolute_url = ''''\<rparr> ''''"
  by (simp add: is_in_xloop_def x_loop_or_empty_def)

subsection \<open>C9: status changes\<close>

text \<open>
  Claim C9, amended. A status change is not replicated: \<open>status_change\<close> returns \<open>None\<close>,
  makes no remote call, writes no outcome and leaves the world as it is, whatever the
  destinations are. Only \<open>post_receive\<close>, \<open>take_action\<close> and \<open>delete\<close> forward.
\<close>

theorem status_change_does_nothing:
  "fst (status_change client req dests alert status text w) = ()
   \<and> outcomes (snd (status_change client req dests alert status text w)) = []
   \<and> calls (snd (status_change client req dests alert status text w)) = []
   \<and> world (snd (status_change client req dests alert status text w)) = w"
  by (simp add: status_change_def)

text \<open>
  The instance of two destinations that a create/update would be forwarded to.
\<close>

theorem status_change_does_nothing_witness:
  "calls (snd (status_change (\<lambda>c w. (Inr ''ok'', w))
       \<lparr>x_loop_header = None, absolute_url = ''nodeA''\<rparr>
       [(''B'', ''keyB'', [''*'']), (''C'', ''keyC'', [''fwd''])]
       \<lparr>alert_id = ''a1'', alert_body = ''body''\<rparr> ''closed'' ''done'' (5::nat))) = []
   \<and> world (snd (status_change (\<lambda>c w. (Inr ''ok'', w))
       \<lparr>x_loop_header = None, absolute_url = ''nodeA''\<rparr>
       [(''B'', ''keyB'', [''*'']), (''C'', ''keyC'', [''fwd''])]
       \<lparr>alert_id = ''a1'', alert_body = ''body''\<rparr> ''closed'' ''done'' (5::nat))) = 5"
  using status_change_does_nothing [of "\<lambda>c w. (Inr ''ok'', w)"
       "\<lparr>x_loop_header = None, absolute_url = ''nodeA''\<rparr>"
       "[(''B'', ''keyB'', [''*'']), (''C'', ''keyC'', [''fwd''])]"
       "\<lparr>alert_id = ''a1'', alert_body = ''body''\<rparr>" "''closed''" "''done''" "5::nat"]
  by blast

text \<open>
  Claim C9 as it is stated fails: with one wildcard destination and no loop header,
  \<open>status_change\<close> calls no remote, where \<open>post_receive\<close> calls the destination.
\<close>

theorem status_change_is_not_forwarded:
  "calls (snd (status_change (\<lambda>c w. (Inr ''ok'', w))
       \<lparr>x_loop_header = None, absolute_url = ''nodeA''\<rparr> [(''B'', ''keyB'', [''*''])]
       \<lparr>alert_id = ''a1'', alert_body = ''body''\<rparr> ''ack'' ''note'' ())) = []
   \<and> calls (snd (post_receive (\<lambda>remote auth headers. None) (\<lambda>c w. (Inr ''ok'', w))
       \<lparr>x_loop_header = None, absolute_url = ''nodeA''\<rparr> [(''B'', ''keyB'', [''*''])]
       \<lparr>alert_id = ''a1'', alert_body = ''body''\<rparr> ()))
     = [Call ''B'' ''keyB'' ''nodeA'' (Send_alert ''body'')]"
  by (simp add: status_change_def post_receive_def x_loop_or_empty_def http_origin_def
        append_to_header_def permitted_fwd_def Let_def)

subsection \<open>C10: membership is a substring test\<close>

text \<open>
  Claim C10. \<open>is_in_xloop\<close> is the substring test on the whole header value; the three
  guards (\<open>pre_receive\<close>, \<open>take_action\<close>, \<open>delete\<close>) raise \<open>ForwardingLoop\<close> whenever the
  origin is a substring of it, before any effect. The empty string is a member of every
  chain, also of the absent one, so the guards raise for an empty origin. The test is not
  membership among the comma-separated elements: the origin \<^verbatim>\<open>node\<close> is found in the header
  \<^verbatim>\<open>nodeA\<close>, whose only element is \<^verbatim>\<open>nodeA\<close>.
\<close>

theorem chain_membership_is_substring_test:
  "(is_in_xloop req server \<longleftrightarrow> (\<exists>ps ss. x_loop_or_empty req = ps @ server @ ss))
   \<and> ((\<exists>ps ss. x_loop_or_empty req = ps @ http_origin req @ ss) \<longrightarrow>
        (\<exists>m. pre_receive req alert = Inl (ForwardingLoop m))
        \<and> (\<exists>m. take_action init client req dests alert action text w
                 = (Inl (ForwardingLoop m), Effects [] [] w))
        \<and> (\<exists>m. delete init client req dests alert w = (Inl (ForwardingLoop m), Effects [] [] w)))
   \<and> is_in_xloop req []
   \<and> (http_origin req = [] \<longrightarrow>
        (\<exists>m. pre_receive req alert = Inl (ForwardingLoop m))
        \<and> (\<exists>m. take_action init client req dests alert action text w
                 = (Inl (ForwardingLoop m), Effects [] [] w))
        \<and> (\<exists>m. delete init client req dests alert w = (Inl (ForwardingLoop m), Effects [] [] w)))
   \<and> is_in_xloop \<lparr>x_loop_header = Some ''nodeA'', absolute_url = ''node''\<rparr> ''node''
   \<and> \<not> spec_contains (spec_decode (Some ''nodeA'')) ''node''"
proof -
  have a: "is_in_xloop req server \<longleftrightarrow> (\<exists>ps ss. x_loop_or_empty req = ps @ server @ ss)"
    by (simp add: is_in_xloop_def str_in_iff)
  have raise: "(\<exists>m. pre_receive req alert = Inl (ForwardingLoop m))
        \<and> (\<exists>m. take_action init client req dests alert action text w
                 = (Inl (ForwardingLoop m), Effects [] [] w))
        \<and> (\<exists>m. delete init client req dests alert w = (Inl (ForwardingLoop m), Effects [] [] w))"
    if "str_in (http_origin req) (x_loop_or_empty req)"
    using that by (simp add: pre_receive_def take_action_guarded delete_guarded is_in_xloop_def)
  have b: "(\<exists>ps ss. x_loop_or_empty req = ps @ http_origin req @ ss) \<longrightarrow>
        (\<exists>m. pre_receive req alert = Inl (ForwardingLoop m))
        \<and> (\<exists>m. take_action init client req dests alert action text w
                 = (Inl (ForwardingLoop m), Effects [] [] w))
        \<and> (\<exists>m. delete init client req dests alert w = (Inl (ForwardingLoop m), Effects [] [] w))"
    using raise by (simp only: str_in_iff [symmetric]) blast
  have c: "is_in_xloop req []"
    by (simp add: is_in_xloop_def str_in_empty)
  have d: "http_origin req = [] \<longrightarrow>
        (\<exists>m. pre_receive req alert = Inl (ForwardingLoop m))
        \<and> (\<exists>m. take_action init client req dests alert action text w
                 = (Inl (ForwardingLoop m), Effects [] [] w))
        \<and> (\<exists>m. delete init client req dests alert w = (Inl (ForwardingLoop m), Effects [] [] w))"
    using raise str_in_empty [of "x_loop_or_empty req"] by auto
  have e: "is_in_xloop \<lparr>x_loop_header = Some ''nodeA'', absolute_url = ''node''\<rparr> ''node''"
    by (simp add: is_in_xloop_def x_loop_or_empty_def)
  have f: "\<not> spec_contains (spec_decode (Some ''nodeA'')) ''node''"
    by (simp add: spec_contains_def spec_decode_def)
  from a b c d e f show ?thesis by blast
qed

text \<open>
  The instance of the origin \<^verbatim>\<open>node\<close> and the header \<^verbatim>\<open>nodeA\<close>: the three guards raise; and
  the empty origin against an absent header.
\<close>

theorem chain_membership_is_substring_test_witness:
  "x_loop_or_empty \<lparr>x_loop_header = Some ''nodeA'', absolute_url = ''node''\<rparr> = [] @ ''node'' @ ''A''
   \<and> pre_receive \<lparr>x_loop_header = Some ''nodeA'', absolute_url = ''node''\<rparr>
        \<lparr>alert_id = ''a1'', alert_body = ''body''\<rparr>
      = Inl (ForwardingLoop ''Alert a1 already processed by node. Ignoring.'')
   \<and> take_action (\<lambda>remote auth headers. None) (\<lambda>c w. (Inr ''ok'', w))
        \<lparr>x_loop_header = Some ''nodeA'', absolute_url = ''node''\<rparr>
        [(''B'', ''keyB'', [''*''])] \<lparr>alert_id = ''a1'', alert_body = ''body''\<rparr> ''ack'' ''note'' ()
      = (Inl (ForwardingLoop ''Alert a1 action ack already processed by node.''), Effects [] [] ())
   \<and> delete (\<lambda>remote auth headers. None) (\<lambda>c w. (Inr ''ok'', w))
        \<lparr>x_loop_header = Some ''nodeA'', absolute_url = ''node''\<rparr>
        [(''B'', ''keyB'', [''*''])] \<lparr>alert_id = ''a1'', alert_body = ''body''\<rparr> ()
      = (Inl (ForwardingLoop ''Alert a1 already deleted by node.''), Effects [] [] ())
   \<and> pre_receive \<lparr>x_loop_header = None, absolute_url = ''''\<rparr>
        \<lparr>alert_id = ''a1'', alert_body = ''body''\<rparr>
      = Inl (ForwardingLoop ''Alert a1 already processed by . Ignoring.'')"
proof -
  have h: "\<exists>ps ss. x_loop_or_empty \<lparr>x_loop_header = Some ''nodeA'', absolute_url = ''node''\<rparr>
      = ps @ http_origin \<lparr>x_loop_header = Some ''nodeA'', absolute_url = ''node''\<rparr> @ ss"
  proof (intro exI)
    show "x_loop_or_empty \<lparr>x_loop_header = Some ''nodeA'', absolute_url = ''node''\<rparr>
      = [] @ http_origin \<lparr>x_loop_header = Some ''nodeA'', absolute_url = ''node''\<rparr> @ ''A''"
      by (simp add: x_loop_or_empty_def http_origin_def)
  qed
  note t = chain_membership_is_substring_test
      [of "\<lparr>x_loop_header = Some ''nodeA'', absolute_url = ''node''\<rparr>" "''node''"
        "\<lparr>alert_id = ''a1'', alert_body = ''body''\<rparr>" "\<lambda>remote auth headers. None"
        "\<lambda>c w. (Inr ''ok'', w)" "[(''B'', ''keyB'', [''*''])]" "''ack''" "''note''" "()"]
  from t h have "\<exists>m. pre_receive \<lparr>x_loop_header = Some ''nodeA'', absolute_url = ''node''\<rparr>
        \<lparr>alert_id = ''a1'', alert_body = ''body''\<rparr> = Inl (ForwardingLoop m)"
    by blast
  then show ?thesis
    by (simp add: pre_receive_def take_action_def delete_def is_in_xloop_def x_loop_or_empty_def
          http_origin_def Let_def)
qed

end
